theory Spec2Isabelle
  imports Complex_Main
begin

section \<open>The scraper (scraper.py, utils.py)\<close>

subsection \<open>Values, exceptions and the environment\<close>

text \<open>
  Python floats are idealised as \<^typ>\<open>real\<close>, Python ints are \<^typ>\<open>int\<close>, a
  \<^verbatim>\<open>datetime\<close> is the number of microseconds since the epoch. A dictionary whose
  insertion order is observable is an association list.
\<close>

datatype pyval = PNone | PBool bool | PStr string | PInt int | PFloat real | PTime int
  | PDict "(pyval \<times> pyval) list"

type_synonym payload = "(string \<times> pyval) list"

text \<open>
  \<^verbatim>\<open>_make_request\<close> catches \<^verbatim>\<open>requests.exceptions.RequestException\<close> only, while
  \<^verbatim>\<open>scrape_url\<close> and \<^verbatim>\<open>_fetch_url\<close> catch every \<^verbatim>\<open>Exception\<close>; the two classes
  are kept apart. Each exception carries its \<^verbatim>\<open>str(e)\<close>.
\<close>

datatype exn = RequestException string | OtherException string

fun str_exn :: "exn \<Rightarrow> string" where
  "str_exn (RequestException m) = m"
| "str_exn (OtherException m) = m"

datatype response = Response (resp_status_code: int) (resp_text: string)

record parse_result =
  scheme :: string
  netloc :: string

text \<open>
  What the program obtains from outside itself. Every interaction with the outside
  (a transport call, a random draw, a clock reading, an extractor run) is answered by an
  oracle indexed with the logical time \<open>tick\<close> of the interaction, so an oracle may answer
  differently on every call. \<open>urlparse\<close> is the standard library's pure parser
  (\<open>Inl\<close> when it raises), \<open>http_error_text\<close> is the text of the \<^verbatim>\<open>HTTPError\<close> that
  \<^verbatim>\<open>raise_for_status\<close> builds for a status and URL, \<open>float_repr\<close> is \<^verbatim>\<open>str\<close> of a
  float.
\<close>

record world =
  urlparse :: "string \<Rightarrow> exn + parse_result"
  session_get :: "nat \<Rightarrow> string \<Rightarrow> exn + response"
  http_error_text :: "int \<Rightarrow> string \<Rightarrow> string"
  random :: "nat \<Rightarrow> real"
  now :: "nat \<Rightarrow> int"
  extractor :: "nat \<Rightarrow> string \<Rightarrow> string \<Rightarrow> exn + payload"
  selenium_get :: "nat \<Rightarrow> string \<Rightarrow> exn + string"
  html_title :: "string \<Rightarrow> string"
  float_repr :: "real \<Rightarrow> string"

subsection \<open>utils.validate_url\<close>

definition validate_url :: "world \<Rightarrow> string \<Rightarrow> bool" where
  "validate_url w u =
     (case urlparse w u of
        Inl e \<Rightarrow> False
      | Inr result \<Rightarrow> scheme result \<noteq> [] \<and> netloc result \<noteq> [])"

subsection \<open>ScrapingResult, configuration, statistics\<close>

record ScrapingResult =
  url :: string
  status_code :: int
  success :: bool
  data :: payload
  timestamp :: int
  error_message :: "string option"

record WebScraper =
  delay :: real
  max_retries :: int
  timeout :: int
  use_selenium :: bool

record scraper_stats =
  requests_made :: int
  successful_requests :: int
  failed_requests :: int
  total_delay_time :: real

text \<open>
  The observable effects of the executor: every \<^verbatim>\<open>time.sleep\<close> and every request
  handed to the transport is appended to \<open>trace\<close>.
\<close>

datatype effect = Sleep real | Get string

record scraper_state =
  stats :: scraper_stats
  tick :: nat
  trace :: "effect list"

definition initial_stats :: scraper_stats where
  "initial_stats = \<lparr>requests_made = 0, successful_requests = 0, failed_requests = 0,
     total_delay_time = 0\<rparr>"

definition initial_state :: scraper_state where
  "initial_state = \<lparr>stats = initial_stats, tick = 0, trace = []\<rparr>"

subsection \<open>WebScraper._make_request\<close>

text \<open>\<^verbatim>\<open>random.uniform(a, b)\<close> is \<^verbatim>\<open>a + (b - a) * random()\<close>.\<close>

definition uniform :: "world \<Rightarrow> nat \<Rightarrow> real \<Rightarrow> real \<Rightarrow> real" where
  "uniform w t a b = a + (b - a) * random w t"

text \<open>\<^verbatim>\<open>response.raise_for_status()\<close>: an \<^verbatim>\<open>HTTPError\<close> for 4xx and 5xx.\<close>

definition raise_for_status :: "world \<Rightarrow> string \<Rightarrow> response \<Rightarrow> exn + response" where
  "raise_for_status w u r =
     (if 400 \<le> resp_status_code r \<and> resp_status_code r < 600
      then Inl (RequestException (http_error_text w (resp_status_code r) u))
      else Inr r)"

text \<open>The jittered pre-request pause, charged to \<open>total_delay_time\<close>.\<close>

definition delay_time_at :: "WebScraper \<Rightarrow> world \<Rightarrow> nat \<Rightarrow> real" where
  "delay_time_at c w t = delay c + uniform w t 0 (delay c * 0.5)"

definition charge_delay :: "WebScraper \<Rightarrow> world \<Rightarrow> scraper_state \<Rightarrow> scraper_state" where
  "charge_delay c w s =
     (if delay c > 0
      then s\<lparr>tick := Suc (tick s),
             trace := trace s @ [Sleep (delay_time_at c w (tick s))],
             stats := (stats s)\<lparr>total_delay_time :=
                        total_delay_time (stats s) + delay_time_at c w (tick s)\<rparr>\<rparr>
      else s)"

text \<open>
  The body of \<^verbatim>\<open>for attempt in range(self.max_retries + 1)\<close>, over the list of attempt
  indices still to run. Falling off the end of the loop returns \<^verbatim>\<open>None\<close>.
\<close>

fun make_request_loop ::
  "WebScraper \<Rightarrow> world \<Rightarrow> string \<Rightarrow> nat list \<Rightarrow> scraper_state
     \<Rightarrow> (exn + response option) \<times> scraper_state" where
  "make_request_loop c w u [] s = (Inr None, s)"
| "make_request_loop c w u (attempt # rest) s =
     (let s1 = charge_delay c w s;
          s2 = s1\<lparr>tick := Suc (tick s1), trace := trace s1 @ [Get u]\<rparr>
      in case (case session_get w (tick s1) u of
                 Inl e \<Rightarrow> Inl e
               | Inr r \<Rightarrow> raise_for_status w u r) of
           Inr r \<Rightarrow>
             (Inr (Some r),
              s2\<lparr>stats := (stats s2)\<lparr>requests_made := requests_made (stats s2) + 1,
                   successful_requests := successful_requests (stats s2) + 1\<rparr>\<rparr>)
         | Inl (RequestException m) \<Rightarrow>
             (if int attempt = max_retries c
              then (Inl (RequestException m),
                    s2\<lparr>stats := (stats s2)\<lparr>failed_requests :=
                                    failed_requests (stats s2) + 1\<rparr>\<rparr>)
              else make_request_loop c w u rest
                     (s2\<lparr>trace := trace s2 @ [Sleep (2 ^ attempt)]\<rparr>))
         | Inl (OtherException m) \<Rightarrow> (Inl (OtherException m), s2))"

definition make_request ::
  "WebScraper \<Rightarrow> world \<Rightarrow> string \<Rightarrow> scraper_state
     \<Rightarrow> (exn + response option) \<times> scraper_state" where
  "make_request c w u s = make_request_loop c w u [0 ..< nat (max_retries c + 1)] s"

subsection \<open>WebScraper.scrape_url and scrape_multiple_urls\<close>

definition parse_with_selenium ::
  "world \<Rightarrow> string \<Rightarrow> scraper_state \<Rightarrow> (exn + string) \<times> scraper_state" where
  "parse_with_selenium w u s = (selenium_get w (tick s) u, s\<lparr>tick := Suc (tick s)\<rparr>)"

definition failure_result :: "world \<Rightarrow> string \<Rightarrow> string \<Rightarrow> scraper_state
    \<Rightarrow> ScrapingResult \<times> scraper_state" where
  "failure_result w u msg s =
     (\<lparr>url = u, status_code = 0, success = False, data = [],
       timestamp = now w (tick s), error_message = Some msg\<rparr>,
      s\<lparr>tick := Suc (tick s)\<rparr>)"

text \<open>
  The page text and status code obtained inside the \<^verbatim>\<open>try\<close> block. Reading
  \<^verbatim>\<open>response.text\<close> of the \<^verbatim>\<open>None\<close> that an empty attempt loop returns raises
  \<^verbatim>\<open>AttributeError\<close>.
\<close>

definition attribute_error_text :: string where
  "attribute_error_text =
     CHR 0x27 # ''NoneType'' @ CHR 0x27 # '' object has no attribute '' @
     CHR 0x27 # ''text'' @ [CHR 0x27]"

definition fetch_page :: "WebScraper \<Rightarrow> world \<Rightarrow> string \<Rightarrow> scraper_state
    \<Rightarrow> (exn + string \<times> int) \<times> scraper_state" where
  "fetch_page c w u s =
     (if use_selenium c
      then (case parse_with_selenium w u s of
              (Inl e, s1) \<Rightarrow> (Inl e, s1)
            | (Inr page, s1) \<Rightarrow> (Inr (page, 200), s1))
      else (case make_request c w u s of
              (Inl e, s1) \<Rightarrow> (Inl e, s1)
            | (Inr None, s1) \<Rightarrow>
                (Inl (OtherException attribute_error_text), s1)
            | (Inr (Some r), s1) \<Rightarrow> (Inr (resp_text r, resp_status_code r), s1)))"

definition scrape_url :: "WebScraper \<Rightarrow> world \<Rightarrow> string \<Rightarrow> scraper_state
    \<Rightarrow> ScrapingResult \<times> scraper_state" where
  "scrape_url c w u s =
     (if \<not> validate_url w u then failure_result w u ''Invalid URL'' s
      else case fetch_page c w u s of
             (Inl e, s1) \<Rightarrow> failure_result w u (str_exn e) s1
           | (Inr (page, code), s1) \<Rightarrow>
               (case extractor w (tick s1) page u of
                  Inl e \<Rightarrow> failure_result w u (str_exn e) (s1\<lparr>tick := Suc (tick s1)\<rparr>)
                | Inr d \<Rightarrow>
                    (\<lparr>url = u, status_code = code, success = True, data = d,
                      timestamp = now w (Suc (tick s1)), error_message = None\<rparr>,
                     s1\<lparr>tick := Suc (Suc (tick s1))\<rparr>)))"

fun scrape_loop :: "WebScraper \<Rightarrow> world \<Rightarrow> string list \<Rightarrow> ScrapingResult list
    \<Rightarrow> scraper_state \<Rightarrow> ScrapingResult list \<times> scraper_state" where
  "scrape_loop c w [] results s = (results, s)"
| "scrape_loop c w (u # us) results s =
     (case scrape_url c w u s of
        (result, s1) \<Rightarrow> scrape_loop c w us (results @ [result]) s1)"

definition scrape_multiple_urls :: "WebScraper \<Rightarrow> world \<Rightarrow> string list \<Rightarrow> scraper_state
    \<Rightarrow> ScrapingResult list \<times> scraper_state" where
  "scrape_multiple_urls c w urls s = scrape_loop c w urls [] s"

subsection \<open>WebScraper.get_stats\<close>

definition get_stats :: "scraper_stats \<Rightarrow> (string \<times> real) list" where
  "get_stats st =
     [(''requests_made'', of_int (requests_made st)),
      (''successful_requests'', of_int (successful_requests st)),
      (''failed_requests'', of_int (failed_requests st)),
      (''total_delay_time'', total_delay_time st),
      (''success_rate'',
         (of_int (successful_requests st) / of_int (max 1 (requests_made st))) * 100),
      (''average_delay'', total_delay_time st / of_int (max 1 (requests_made st)))]"

subsection \<open>AsyncWebScraper\<close>

record AsyncWebScraper =
  max_concurrent :: int
  delay :: real
  timeout :: int

text \<open>
  One unit of work of the concurrent executor, run at logical time \<open>t\<close>: the fixed pause,
  one transport call (\<open>session_get\<close> stands for \<^verbatim>\<open>session.get\<close> followed by
  \<^verbatim>\<open>response.text()\<close>), the basic extraction. It returns the outcome and its effects.
\<close>

definition fetch_url :: "AsyncWebScraper \<Rightarrow> world \<Rightarrow> nat \<Rightarrow> string
    \<Rightarrow> ScrapingResult \<times> effect list" where
  "fetch_url c w t u =
     (case session_get w t u of
        Inr response \<Rightarrow>
          (\<lparr>url = u, status_code = resp_status_code response, success = True,
            data = [(''url'', PStr u),
                    (''title'', PStr (html_title w (resp_text response))),
                    (''text_length'', PInt (int (length (resp_text response))))],
            timestamp = now w t, error_message = None\<rparr>,
           [Sleep (AsyncWebScraper.delay c), Get u])
      | Inl e \<Rightarrow>
          (\<lparr>url = u, status_code = 0, success = False, data = [],
            timestamp = now w t, error_message = Some (str_exn e)\<rparr>,
           [Sleep (AsyncWebScraper.delay c), Get u]))"

text \<open>
  \<^verbatim>\<open>asyncio.gather\<close> over one task per input position. The tasks complete in the order
  \<open>schedule\<close> (a list of task indices chosen by the event loop); a completing task stores
  its outcome under its own index. The join returns once every task has an outcome, and
  reads them off by index. The semaphore bounds how many units are in flight at a time:
  it restricts which schedules can occur, not what the join returns for a schedule.
\<close>

fun run_tasks :: "AsyncWebScraper \<Rightarrow> world \<Rightarrow> string list \<Rightarrow> nat list \<Rightarrow> nat
    \<Rightarrow> (nat \<rightharpoonup> ScrapingResult) \<Rightarrow> (nat \<rightharpoonup> ScrapingResult)" where
  "run_tasks c w urls [] t finished = finished"
| "run_tasks c w urls (i # rest) t finished =
     (if i < length urls \<and> finished i = None
      then run_tasks c w urls rest (Suc t) (finished(i \<mapsto> fst (fetch_url c w t (urls ! i))))
      else run_tasks c w urls rest t finished)"

fun gather :: "(nat \<rightharpoonup> ScrapingResult) \<Rightarrow> nat list \<Rightarrow> ScrapingResult list option" where
  "gather finished [] = Some []"
| "gather finished (i # rest) =
     (case finished i of
        None \<Rightarrow> None
      | Some r \<Rightarrow> (case gather finished rest of None \<Rightarrow> None | Some rs \<Rightarrow> Some (r # rs)))"

definition scrape_multiple_async :: "AsyncWebScraper \<Rightarrow> world \<Rightarrow> string list \<Rightarrow> nat list
    \<Rightarrow> ScrapingResult list option" where
  "scrape_multiple_async c w urls schedule =
     gather (run_tasks c w urls schedule 0 Map.empty) [0 ..< length urls]"

section \<open>Monitoring (monitoring.py)\<close>

subsection \<open>Python builtins used by the monitor\<close>

text \<open>\<^verbatim>\<open>d.get(k, default)\<close> and \<^verbatim>\<open>d[k] = v\<close> on an insertion-ordered dictionary.\<close>

fun dict_get :: "('k \<times> 'v) list \<Rightarrow> 'k \<Rightarrow> 'v \<Rightarrow> 'v" where
  "dict_get [] k d = d"
| "dict_get ((k', v) # rest) k d = (if k' = k then v else dict_get rest k d)"

fun dict_set :: "('k \<times> 'v) list \<Rightarrow> 'k \<Rightarrow> 'v \<Rightarrow> ('k \<times> 'v) list" where
  "dict_set [] k v = [(k, v)]"
| "dict_set ((k', v') # rest) k v =
     (if k' = k then (k, v) # rest else (k', v') # dict_set rest k v)"

text \<open>
  Rounding to the nearest integer, ties to even: the rounding of \<^verbatim>\<open>round(x, n)\<close> and of
  the format specification \<^verbatim>\<open>.nf\<close>, here on the exact real value. The code rounds the
  double it has computed, which can fall on the other side of a tie: the digits of the
  alert texts and of the sampler averages are those of the real number, and no property
  below depends on them.
\<close>

definition round_half_even :: "real \<Rightarrow> int" where
  "round_half_even x =
     (let f = \<lfloor>x\<rfloor>; d = x - of_int f
      in if d < 1 / 2 then f
         else if 1 / 2 < d then f + 1
         else if even f then f else f + 1)"

definition py_round :: "real \<Rightarrow> nat \<Rightarrow> real" where
  "py_round x n = of_int (round_half_even (x * 10 ^ n)) / 10 ^ n"

definition digit_char :: "nat \<Rightarrow> char" where
  "digit_char d = ''0123456789'' ! d"

function decimal :: "nat \<Rightarrow> string" where
  "decimal n = (if n < 10 then [digit_char n] else decimal (n div 10) @ [digit_char (n mod 10)])"
  by pat_completeness auto
termination
  by (relation "measure id") auto

declare decimal.simps [simp del]

text \<open>\<^verbatim>\<open>format(x, '.nf')\<close>: sign, integer part, and \<open>n\<close> digits after the point.\<close>

definition format_f :: "nat \<Rightarrow> real \<Rightarrow> string" where
  "format_f n x =
     (let scaled = nat (round_half_even (\<bar>x\<bar> * 10 ^ n));
          whole = decimal (scaled div 10 ^ n);
          frac = decimal (scaled mod 10 ^ n)
      in (if x < 0 then ''-'' else []) @ whole @
         (if n = 0 then [] else ''.'' @ replicate (n - length frac) CHR ''0'' @ frac))"

text \<open>\<^verbatim>\<open>statistics.mean\<close> of a non-empty list.\<close>

definition mean :: "real list \<Rightarrow> real" where
  "mean xs = sum_list xs / of_nat (length xs)"

text \<open>
  \<^verbatim>\<open>collections.deque(maxlen=n).append(x)\<close>: the element is appended on the right, and
  one element is dropped on the left when the size then exceeds \<open>maxlen\<close>.
\<close>

definition deque_append :: "nat \<Rightarrow> 'a list \<Rightarrow> 'a \<Rightarrow> 'a list" where
  "deque_append maxlen d x = (if length (d @ [x]) > maxlen then tl (d @ [x]) else d @ [x])"

subsection \<open>PerformanceMonitor\<close>

record sample =
  sample_timestamp :: int
  cpu_percent :: real
  memory_percent :: real
  memory_used_mb :: real
  disk_io :: "(string \<times> int) list"
  network_io :: "(string \<times> int) list"
  process_count :: int

record PerformanceMonitor =
  interval :: real
  monitoring :: bool
  metrics_history :: "sample list"

definition history_maxlen :: nat where
  "history_maxlen = 1000"

definition new_performance_monitor :: "real \<Rightarrow> PerformanceMonitor" where
  "new_performance_monitor i = \<lparr>interval = i, monitoring = False, metrics_history = []\<rparr>"

definition start_monitoring :: "PerformanceMonitor \<Rightarrow> PerformanceMonitor" where
  "start_monitoring pm = (if monitoring pm then pm else pm\<lparr>monitoring := True\<rparr>)"

definition stop_monitoring :: "PerformanceMonitor \<Rightarrow> PerformanceMonitor" where
  "stop_monitoring pm = pm\<lparr>monitoring := False\<rparr>"

text \<open>
  One wake of \<^verbatim>\<open>_monitor_loop\<close>: the capture either yields a sample, which is appended
  to the bounded history, or raises, which is swallowed.
\<close>

definition monitor_wake :: "exn + sample \<Rightarrow> PerformanceMonitor \<Rightarrow> PerformanceMonitor" where
  "monitor_wake capture pm =
     (case capture of
        Inr metrics \<Rightarrow>
          pm\<lparr>metrics_history := deque_append history_maxlen (metrics_history pm) metrics\<rparr>
      | Inl e \<Rightarrow> pm)"

text \<open>
  \<^verbatim>\<open>while self.monitoring: ...\<close> over the captures of the wakes that the worker gets to
  run: the state after these wakes.
\<close>

fun monitor_loop :: "(exn + sample) list \<Rightarrow> PerformanceMonitor \<Rightarrow> PerformanceMonitor" where
  "monitor_loop [] pm = pm"
| "monitor_loop (capture # rest) pm =
     (if monitoring pm then monitor_loop rest (monitor_wake capture pm) else pm)"

definition get_current_stats :: "PerformanceMonitor \<Rightarrow> (string \<times> real) list" where
  "get_current_stats pm =
     (if metrics_history pm = [] then []
      else let recent_metrics =
                 drop (length (metrics_history pm) - 10) (metrics_history pm)
           in if recent_metrics = [] then []
              else [(''avg_cpu_percent'', py_round (mean (map cpu_percent recent_metrics)) 2),
                    (''avg_memory_percent'',
                       py_round (mean (map memory_percent recent_metrics)) 2),
                    (''current_memory_mb'', py_round (memory_used_mb (last recent_metrics)) 2),
                    (''measurements_count'', of_nat (length recent_metrics)),
                    (''monitoring_duration_minutes'',
                       of_nat (length (metrics_history pm)) * interval pm / 60)])"

subsection \<open>ProgressTracker\<close>

record ProgressTracker =
  total_items :: int
  current_item :: int
  start_time :: int
  update_interval :: real
  last_update :: real
  completed_items :: "payload list"
  failed_items :: "payload list"

definition new_progress_tracker :: "int \<Rightarrow> int \<Rightarrow> ProgressTracker" where
  "new_progress_tracker t n =
     \<lparr>total_items = n, current_item = 0, start_time = t, update_interval = 1,
      last_update = 0, completed_items = [], failed_items = []\<rparr>"

text \<open>
  \<^verbatim>\<open>update(increment, item_info)\<close> at clock reading \<open>t\<close> (microseconds); the rendering
  itself only prints.
\<close>

definition update :: "int \<Rightarrow> int \<Rightarrow> bool \<Rightarrow> payload \<Rightarrow> ProgressTracker \<Rightarrow> ProgressTracker" where
  "update t increment item_success item_info pt =
     (let pt1 = pt\<lparr>current_item := current_item pt + increment\<rparr>;
          pt2 = (if item_info = [] then pt1
                 else if item_success
                 then pt1\<lparr>completed_items := completed_items pt1 @ [item_info]\<rparr>
                 else pt1\<lparr>failed_items := failed_items pt1 @ [item_info]\<rparr>);
          now_s = of_int t / 1000000
      in if now_s - last_update pt2 \<ge> update_interval pt2
         then pt2\<lparr>last_update := now_s\<rparr> else pt2)"

definition finish :: "ProgressTracker \<Rightarrow> ProgressTracker" where
  "finish pt = pt\<lparr>current_item := total_items pt\<rparr>"

subsection \<open>ScrapingMetrics\<close>

record ScrapingMetrics =
  start_time :: int
  end_time :: "int option"
  total_urls :: int
  successful_requests :: int
  failed_requests :: int
  total_bytes_downloaded :: int
  total_processing_time :: real
  average_response_time :: real
  requests_per_second :: real
  errors_by_type :: "(string \<times> int) list"
  status_codes :: "(int \<times> int) list"
  domain_stats :: "(string \<times> int) list"

text \<open>\<^verbatim>\<open>ScrapingMetrics()\<close> created when the clock reads \<open>t\<close>.\<close>

definition new_metrics :: "int \<Rightarrow> ScrapingMetrics" where
  "new_metrics t =
     \<lparr>start_time = t, end_time = None, total_urls = 0, successful_requests = 0,
      failed_requests = 0, total_bytes_downloaded = 0, total_processing_time = 0,
      average_response_time = 0, requests_per_second = 0, errors_by_type = [],
      status_codes = [], domain_stats = []\<rparr>"

text \<open>
  The properties \<^verbatim>\<open>duration\<close> (in microseconds, read when the clock shows \<open>t\<close>) and
  \<^verbatim>\<open>success_rate\<close>, and \<^verbatim>\<open>timedelta.total_seconds()\<close>.
\<close>

definition duration :: "int \<Rightarrow> ScrapingMetrics \<Rightarrow> int" where
  "duration t m = (case end_time m of Some e \<Rightarrow> e | None \<Rightarrow> t) - start_time m"

definition total_seconds :: "int \<Rightarrow> real" where
  "total_seconds d = of_int d / 1000000"

definition success_rate :: "ScrapingMetrics \<Rightarrow> real" where
  "success_rate m =
     (let total_count = successful_requests m + failed_requests m
      in if total_count > 0
         then of_int (successful_requests m) / of_int total_count * 100 else 0)"

definition to_dict :: "int \<Rightarrow> ScrapingMetrics \<Rightarrow> (string \<times> pyval) list" where
  "to_dict t m =
     [(''start_time'', PTime (start_time m)),
      (''end_time'', (case end_time m of Some e \<Rightarrow> PTime e | None \<Rightarrow> PNone)),
      (''duration_seconds'', PFloat (total_seconds (duration t m))),
      (''total_urls'', PInt (total_urls m)),
      (''successful_requests'', PInt (successful_requests m)),
      (''failed_requests'', PInt (failed_requests m)),
      (''success_rate'', PFloat (success_rate m)),
      (''total_bytes_downloaded'', PInt (total_bytes_downloaded m)),
      (''total_processing_time'', PFloat (total_processing_time m)),
      (''average_response_time'', PFloat (average_response_time m)),
      (''requests_per_second'', PFloat (requests_per_second m)),
      (''errors_by_type'', PDict (map (\<lambda>(k, v). (PStr k, PInt v)) (errors_by_type m))),
      (''status_codes'', PDict (map (\<lambda>(k, v). (PInt k, PInt v)) (status_codes m))),
      (''domain_stats'', PDict (map (\<lambda>(k, v). (PStr k, PInt v)) (domain_stats m)))]"

subsection \<open>ScrapingMonitor\<close>

record ScrapingMonitor =
  metrics :: ScrapingMetrics
  performance_monitor :: PerformanceMonitor
  progress_tracker :: "ProgressTracker option"
  alerts :: "string list"
  error_rate_threshold :: real
  response_time_threshold :: real
  memory_threshold :: real

text \<open>\<^verbatim>\<open>ScrapingMonitor.__init__\<close> when the clock reads \<open>t\<close>.\<close>

definition new_scraping_monitor :: "int \<Rightarrow> ScrapingMonitor" where
  "new_scraping_monitor t =
     \<lparr>metrics = new_metrics t, performance_monitor = new_performance_monitor 5,
      progress_tracker = None, alerts = [], error_rate_threshold = 20,
      response_time_threshold = 10, memory_threshold = 80\<rparr>"

definition start_session :: "int \<Rightarrow> int option \<Rightarrow> ScrapingMonitor \<Rightarrow> ScrapingMonitor" where
  "start_session t total_urls_arg mon =
     (let n = (case total_urls_arg of Some k \<Rightarrow> k | None \<Rightarrow> 0)
      in mon\<lparr>metrics := (new_metrics t)\<lparr>total_urls := n\<rparr>,
             progress_tracker :=
               (if n \<noteq> 0 then Some (new_progress_tracker t n) else progress_tracker mon),
             performance_monitor := start_monitoring (performance_monitor mon)\<rparr>)"

text \<open>The three alert texts of \<^verbatim>\<open>_check_alerts\<close>.\<close>

definition error_rate_alert :: "world \<Rightarrow> real \<Rightarrow> real \<Rightarrow> string" where
  "error_rate_alert w error_rate threshold =
     ''High error rate: '' @ format_f 1 error_rate @ ''% (threshold: '' @
     float_repr w threshold @ ''%)''"

definition response_time_alert :: "real \<Rightarrow> string" where
  "response_time_alert avg = ''Slow response times: '' @ format_f 2 avg @ ''s average''"

definition memory_alert :: "real \<Rightarrow> string" where
  "memory_alert mem = ''High memory usage: '' @ format_f 1 mem @ ''%''"

text \<open>\<^verbatim>\<open>if alert not in self.alerts: self.alerts.append(alert)\<close>\<close>

definition add_alert :: "string \<Rightarrow> string list \<Rightarrow> string list" where
  "add_alert alert as = (if alert \<in> set as then as else as @ [alert])"

definition check_alerts :: "world \<Rightarrow> ScrapingMonitor \<Rightarrow> ScrapingMonitor" where
  "check_alerts w mon =
     (let total_requests =
            successful_requests (metrics mon) + failed_requests (metrics mon);
          error_rate = of_int (failed_requests (metrics mon)) / of_int total_requests * 100;
          alerts1 =
            (if total_requests \<ge> 10 \<and> error_rate > error_rate_threshold mon
             then add_alert (error_rate_alert w error_rate (error_rate_threshold mon))
                    (alerts mon)
             else alerts mon);
          alerts2 =
            (if average_response_time (metrics mon) > response_time_threshold mon
             then add_alert (response_time_alert (average_response_time (metrics mon)))
                    alerts1
             else alerts1);
          system_stats = get_current_stats (performance_monitor mon);
          alerts3 =
            (if dict_get system_stats ''avg_memory_percent'' 0 > memory_threshold mon
             then add_alert (memory_alert (dict_get system_stats ''avg_memory_percent'' 0))
                    alerts2
             else alerts2)
      in mon\<lparr>alerts := alerts3\<rparr>)"

text \<open>
  \<^verbatim>\<open>log_request\<close> at clock reading \<open>t\<close>. An optional argument is \<open>None\<close> when absent;
  each \<^verbatim>\<open>if x:\<close> of the source is the test that \<open>x\<close> is present and not zero (not
  empty). The division raises \<^verbatim>\<open>ZeroDivisionError\<close> on a zero count.
\<close>

definition count_error :: "string option \<Rightarrow> ScrapingMetrics \<Rightarrow> ScrapingMetrics" where
  "count_error error m =
     (case error of
        None \<Rightarrow> m
      | Some e \<Rightarrow>
          if e = [] then m
          else m\<lparr>errors_by_type :=
                   dict_set (errors_by_type m) e (dict_get (errors_by_type m) e 0 + 1)\<rparr>)"

definition count_status :: "int option \<Rightarrow> ScrapingMetrics \<Rightarrow> ScrapingMetrics" where
  "count_status code m =
     (case code of
        None \<Rightarrow> m
      | Some c \<Rightarrow>
          if c = 0 then m
          else m\<lparr>status_codes :=
                   dict_set (status_codes m) c (dict_get (status_codes m) c 0 + 1)\<rparr>)"

definition add_response_time :: "real option \<Rightarrow> ScrapingMetrics \<Rightarrow> exn + ScrapingMetrics" where
  "add_response_time response_time m =
     (case response_time of
        None \<Rightarrow> Inr m
      | Some rt \<Rightarrow>
          if rt = 0 then Inr m
          else let m1 = m\<lparr>total_processing_time := total_processing_time m + rt\<rparr>;
                   total_requests = successful_requests m1 + failed_requests m1
               in if total_requests = 0
                  then Inl (OtherException ''float division by zero'')
                  else Inr (m1\<lparr>average_response_time :=
                                 total_processing_time m1 / of_int total_requests\<rparr>))"

definition add_content_size :: "int option \<Rightarrow> ScrapingMetrics \<Rightarrow> ScrapingMetrics" where
  "add_content_size content_size m =
     (case content_size of
        None \<Rightarrow> m
      | Some n \<Rightarrow>
          if n = 0 then m
          else m\<lparr>total_bytes_downloaded := total_bytes_downloaded m + n\<rparr>)"

definition count_domain :: "world \<Rightarrow> string \<Rightarrow> ScrapingMetrics \<Rightarrow> ScrapingMetrics" where
  "count_domain w u m =
     (case urlparse w u of
        Inl e \<Rightarrow> m
      | Inr parsed \<Rightarrow>
          m\<lparr>domain_stats :=
              dict_set (domain_stats m) (netloc parsed)
                (dict_get (domain_stats m) (netloc parsed) 0 + 1)\<rparr>)"

definition item_info :: "string \<Rightarrow> bool \<Rightarrow> int option \<Rightarrow> real option \<Rightarrow> payload" where
  "item_info u ok code response_time =
     [(''url'', PStr u),
      (''success'', PBool ok),
      (''status_code'', (case code of None \<Rightarrow> PNone | Some c \<Rightarrow> PInt c)),
      (''response_time'', (case response_time of None \<Rightarrow> PNone | Some rt \<Rightarrow> PFloat rt))]"

definition log_request ::
  "world \<Rightarrow> int \<Rightarrow> string \<Rightarrow> bool \<Rightarrow> int option \<Rightarrow> real option \<Rightarrow> string option
     \<Rightarrow> int option \<Rightarrow> ScrapingMonitor \<Rightarrow> exn + ScrapingMonitor" where
  "log_request w t u ok code response_time error content_size mon =
     (let m1 = (if ok
                then (metrics mon)\<lparr>successful_requests :=
                                      successful_requests (metrics mon) + 1\<rparr>
                else count_error error
                       ((metrics mon)\<lparr>failed_requests :=
                                        failed_requests (metrics mon) + 1\<rparr>));
          m2 = count_status code m1
      in case add_response_time response_time m2 of
           Inl e \<Rightarrow> Inl e
         | Inr m3 \<Rightarrow>
             Inr (check_alerts w
                    (mon\<lparr>metrics := count_domain w u (add_content_size content_size m3),
                         progress_tracker :=
                           map_option (update t 1 ok (item_info u ok code response_time))
                             (progress_tracker mon)\<rparr>)))"

definition end_session :: "int \<Rightarrow> ScrapingMonitor \<Rightarrow> ScrapingMonitor" where
  "end_session t mon =
     (let m1 = (metrics mon)\<lparr>end_time := Some t\<rparr>;
          total_requests = successful_requests m1 + failed_requests m1;
          m2 = (if total_requests > 0 \<and> total_seconds (duration t m1) > 0
                then m1\<lparr>requests_per_second :=
                          of_int total_requests / total_seconds (duration t m1)\<rparr>
                else m1)
      in mon\<lparr>metrics := m2,
             progress_tracker := map_option finish (progress_tracker mon),
             performance_monitor := stop_monitoring (performance_monitor mon)\<rparr>)"

text \<open>
  What happens to a monitor during a session: requests are logged by the pipeline, and
  the sampler's worker appends to the history of the performance monitor in between.
\<close>

datatype session_event =
  Request int string bool "int option" "real option" "string option" "int option"
  | Wake "exn + sample"

fun session_step :: "world \<Rightarrow> session_event \<Rightarrow> ScrapingMonitor \<Rightarrow> exn + ScrapingMonitor" where
  "session_step w (Request t u ok code response_time error content_size) mon =
     log_request w t u ok code response_time error content_size mon"
| "session_step w (Wake capture) mon =
     Inr (mon\<lparr>performance_monitor :=
                monitor_loop [capture] (performance_monitor mon)\<rparr>)"

fun run_session :: "world \<Rightarrow> session_event list \<Rightarrow> ScrapingMonitor \<Rightarrow> exn + ScrapingMonitor" where
  "run_session w [] mon = Inr mon"
| "run_session w (e # es) mon =
     (case session_step w e mon of
        Inl x \<Rightarrow> Inl x
      | Inr mon1 \<Rightarrow> run_session w es mon1)"



section \<open>Vocabulary of the properties\<close>

text \<open>
  The transport call made at logical time \<open>t\<close> for \<open>u\<close> fails as a request: the transport
  raises a \<^verbatim>\<open>RequestException\<close>, or answers with a 4xx or 5xx status, which
  \<^verbatim>\<open>raise_for_status\<close> turns into one. \<open>failure_text\<close> is the text of that error.
\<close>

definition request_fails :: "world \<Rightarrow> string \<Rightarrow> nat \<Rightarrow> bool" where
  "request_fails w u t =
     (case session_get w t u of
        Inl (RequestException m) \<Rightarrow> True
      | Inl (OtherException m) \<Rightarrow> False
      | Inr r \<Rightarrow> 400 \<le> resp_status_code r \<and> resp_status_code r < 600)"

definition failure_text :: "world \<Rightarrow> string \<Rightarrow> nat \<Rightarrow> string" where
  "failure_text w u t =
     (case session_get w t u of
        Inl e \<Rightarrow> str_exn e
      | Inr r \<Rightarrow> http_error_text w (resp_status_code r) u)"

text \<open>
  The effects of attempt number \<open>i\<close> of a URL whose attempts start at logical time \<open>t0\<close>
  and all fail: the jittered pause, the request, and the backoff pause of \<open>2 ^ i\<close>
  seconds unless the attempt is the last one. An attempt takes two ticks (the random
  draw and the request).
\<close>

definition attempt_effects :: "WebScraper \<Rightarrow> world \<Rightarrow> string \<Rightarrow> nat \<Rightarrow> nat \<Rightarrow> effect list" where
  "attempt_effects c w u t0 i =
     [Sleep (delay_time_at c w (t0 + 2 * i)), Get u] @
     (if int i < max_retries c then [Sleep (2 ^ i)] else [])"

fun is_get :: "effect \<Rightarrow> bool" where
  "is_get (Get u) = True"
| "is_get (Sleep d) = False"

text \<open>The rules of \<^verbatim>\<open>_check_alerts\<close> that are in breach, as their alert texts, in rule order.\<close>

definition breaches :: "world \<Rightarrow> ScrapingMonitor \<Rightarrow> string list" where
  "breaches w mon =
     (let total_requests =
            successful_requests (metrics mon) + failed_requests (metrics mon);
          error_rate = of_int (failed_requests (metrics mon)) / of_int total_requests * 100;
          memory = dict_get (get_current_stats (performance_monitor mon))
                     ''avg_memory_percent'' 0
      in (if total_requests \<ge> 10 \<and> error_rate > error_rate_threshold mon
          then [error_rate_alert w error_rate (error_rate_threshold mon)] else []) @
         (if average_response_time (metrics mon) > response_time_threshold mon
          then [response_time_alert (average_response_time (metrics mon))] else []) @
         (if memory > memory_threshold mon then [memory_alert memory] else []))"

section \<open>An example environment\<close>

text \<open>
  A small stand-in for the library and the network, for the concrete runs below: the
  scheme is what precedes the first colon, the host what follows \<^verbatim>\<open>//\<close> up to the next
  slash; one host is down, one page is missing, every other page is served.
\<close>

fun split_colon :: "string \<Rightarrow> string \<Rightarrow> (string \<times> string) option" where
  "split_colon acc [] = None"
| "split_colon acc (ch # rest) =
     (if ch = CHR '':'' then Some (rev acc, rest) else split_colon (ch # acc) rest)"

definition example_urlparse :: "string \<Rightarrow> exn + parse_result" where
  "example_urlparse u =
     (case split_colon [] u of
        None \<Rightarrow> Inr \<lparr>scheme = [], netloc = []\<rparr>
      | Some (sch, rest) \<Rightarrow>
          if take 2 rest = ''//''
          then Inr \<lparr>scheme = sch, netloc = takeWhile (\<lambda>ch. ch \<noteq> CHR ''/'') (drop 2 rest)\<rparr>
          else Inr \<lparr>scheme = sch, netloc = []\<rparr>)"

definition example_world :: world where
  "example_world =
     \<lparr>urlparse = example_urlparse,
      session_get = (\<lambda>t u.
         if u = ''http://down.test/'' then Inl (RequestException ''refused'')
         else if u = ''http://up.test/missing'' then Inr (Response 404 ''gone'')
         else Inr (Response 200 ''page'')),
      http_error_text = (\<lambda>code u. decimal (nat code) @ '' Error for url: '' @ u),
      random = (\<lambda>t. 1 / 2),
      now = (\<lambda>t. int t),
      extractor = (\<lambda>t page u. Inr [(''url'', PStr u)]),
      selenium_get = (\<lambda>t u. Inr ''page''),
      html_title = (\<lambda>page. []),
      float_repr = format_f 1\<rparr>"

definition example_scraper :: WebScraper where
  "example_scraper = \<lparr>WebScraper.delay = 1, max_retries = 2, WebScraper.timeout = 30,
       use_selenium = False\<rparr>"

definition example_async_scraper :: AsyncWebScraper where
  "example_async_scraper = \<lparr>max_concurrent = 2, delay = 1, timeout = 30\<rparr>"

text \<open>The samples that a list of captures appends: the captures that did not raise.\<close>

fun captured :: "(exn + sample) list \<Rightarrow> sample list" where
  "captured [] = []"
| "captured (Inl e # rest) = captured rest"
| "captured (Inr m # rest) = m # captured rest"

definition example_sample :: "nat \<Rightarrow> sample" where
  "example_sample i =
     \<lparr>sample_timestamp = int i, cpu_percent = 10, memory_percent = 50, memory_used_mb = 2048,
      disk_io = [], network_io = [], process_count = 100\<rparr>"


text \<open>A monitor with given counts and alerts, for the concrete runs below.\<close>

definition example_monitor :: "int \<Rightarrow> int \<Rightarrow> string list \<Rightarrow> ScrapingMonitor" where
  "example_monitor ok failed as =
     (new_scraping_monitor 0)
       \<lparr>metrics := (new_metrics 0)\<lparr>successful_requests := ok, failed_requests := failed\<rparr>,
        alerts := as\<rparr>"

text \<open>A session of three URLs, and some requests logged in it.\<close>

definition example_session :: ScrapingMonitor where
  "example_session = start_session 0 (Some 3) (new_scraping_monitor 0)"



definition slow_request :: "session_event list" where
  "slow_request =
     [Request 1000000 ''http://up.test/a'' True (Some 200) (Some 11) None (Some 4)]"

text \<open>
  For a URL handled from state \<open>s\<close>: whether its call of \<^verbatim>\<open>_make_request\<close> returns a
  response, and whether it uses up its attempts (the \<^verbatim>\<open>RequestException\<close> of the last
  attempt is raised again). An invalid URL, and any URL of a scraper that uses Selenium,
  never reaches \<^verbatim>\<open>_make_request\<close>.
\<close>

definition request_answered :: "WebScraper \<Rightarrow> world \<Rightarrow> string \<Rightarrow> scraper_state \<Rightarrow> nat" where
  "request_answered c w u s =
     (if validate_url w u \<and> \<not> use_selenium c
      then (case fst (make_request c w u s) of
              Inr (Some r) \<Rightarrow> 1
            | Inr None \<Rightarrow> 0
            | Inl e \<Rightarrow> 0)
      else 0)"

definition request_exhausted :: "WebScraper \<Rightarrow> world \<Rightarrow> string \<Rightarrow> scraper_state \<Rightarrow> nat" where
  "request_exhausted c w u s =
     (if validate_url w u \<and> \<not> use_selenium c
      then (case fst (make_request c w u s) of
              Inl (RequestException m) \<Rightarrow> 1
            | Inl (OtherException m) \<Rightarrow> 0
            | Inr r \<Rightarrow> 0)
      else 0)"

text \<open>
  Over a batch run from state \<open>s\<close>: the number of URLs whose request is answered, and the
  number of URLs whose request uses up its attempts.
\<close>

fun answered :: "WebScraper \<Rightarrow> world \<Rightarrow> string list \<Rightarrow> scraper_state \<Rightarrow> nat" where
  "answered c w [] s = 0"
| "answered c w (u # us) s =
     request_answered c w u s + answered c w us (snd (scrape_url c w u s))"

fun exhausted :: "WebScraper \<Rightarrow> world \<Rightarrow> string list \<Rightarrow> scraper_state \<Rightarrow> nat" where
  "exhausted c w [] s = 0"
| "exhausted c w (u # us) s =
     request_exhausted c w u s + exhausted c w us (snd (scrape_url c w u s))"

text \<open>
  Two more environments: a transport that raises an exception outside the
  \<^verbatim>\<open>requests\<close> hierarchy on every call, and an extractor that raises on every page.
\<close>

definition other_exception_world :: world where
  "other_exception_world =
     example_world\<lparr>session_get := (\<lambda>t u. Inl (OtherException ''broken pipe''))\<rparr>"

definition failing_extractor_world :: world where
  "failing_extractor_world =
     example_world\<lparr>extractor := (\<lambda>t page u. Inl (OtherException ''no title''))\<rparr>"

section \<open>Helper lemmas: the sequential executor\<close>

lemma scrape_url_url: "url (fst (scrape_url c w u s)) = u"
  by (simp add: scrape_url_def failure_result_def split: prod.splits sum.splits)

lemma scrape_loop_urls:
  "map url (fst (scrape_loop c w us rs s)) = map url rs @ us"
proof (induction us arbitrary: rs s)
  case Nil
  show ?case by simp
next
  case (Cons u us)
  obtain r s1 where step: "scrape_url c w u s = (r, s1)" by (cases "scrape_url c w u s")
  have "url r = u" using scrape_url_url [of c w u s] step by simp
  then show ?case using Cons.IH [of "rs @ [r]" s1] step by simp
qed

section \<open>Helper lemmas: the concurrent executor\<close>

lemma fetch_url_url: "url (fst (fetch_url c w t u)) = u"
  by (simp add: fetch_url_def split: sum.splits)

lemma run_tasks_keeps:
  "finished i = Some r \<Longrightarrow> run_tasks c w urls sched t finished i = Some r"
proof (induction sched arbitrary: t finished)
  case Nil
  then show ?case by simp
next
  case (Cons j sched)
  show ?case
  proof (cases "j < length urls \<and> finished j = None")
    case True
    then have "j \<noteq> i" using Cons.prems by auto
    then have "(finished(j \<mapsto> fst (fetch_url c w t (urls ! j)))) i = Some r"
      using Cons.prems by simp
    then show ?thesis using True Cons.IH by simp
  next
    case False
    then show ?thesis using Cons.IH [of finished t] Cons.prems by auto
  qed
qed

lemma run_tasks_completes:
  "i \<in> set sched \<Longrightarrow> i < length urls \<Longrightarrow> run_tasks c w urls sched t finished i \<noteq> None"
proof (induction sched arbitrary: t finished)
  case Nil
  then show ?case by simp
next
  case (Cons j sched)
  show ?case
  proof (cases "j = i")
    case True
    show ?thesis
    proof (cases "finished i")
      case None
      have "run_tasks c w urls sched (Suc t) (finished(i \<mapsto> fst (fetch_url c w t (urls ! i)))) i
              = Some (fst (fetch_url c w t (urls ! i)))"
        by (rule run_tasks_keeps) simp
      then show ?thesis using True None Cons.prems by simp
    next
      case (Some r)
      then show ?thesis using True run_tasks_keeps [of "finished" i r c w urls sched t] by simp
    qed
  next
    case False
    then have "i \<in> set sched" using Cons.prems by simp
    then show ?thesis using Cons.IH Cons.prems by simp
  qed
qed

lemma run_tasks_urls:
  "\<forall>i r. finished i = Some r \<longrightarrow> url r = urls ! i \<Longrightarrow>
   run_tasks c w urls sched t finished i = Some r \<Longrightarrow> url r = urls ! i"
proof (induction sched arbitrary: t finished)
  case Nil
  then show ?case by simp
next
  case (Cons j sched)
  show ?case
  proof (cases "j < length urls \<and> finished j = None")
    case True
    let ?d = "finished(j \<mapsto> fst (fetch_url c w t (urls ! j)))"
    have inv: "\<forall>i r. ?d i = Some r \<longrightarrow> url r = urls ! i"
      using Cons.prems(1) by (auto simp: fetch_url_url)
    have "run_tasks c w urls sched (Suc t) ?d i = Some r" using Cons.prems(2) True by simp
    then show ?thesis using Cons.IH [OF inv] by blast
  next
    case False
    then have "run_tasks c w urls sched t finished i = Some r" using Cons.prems(2) by auto
    then show ?thesis using Cons.IH [OF Cons.prems(1)] by blast
  qed
qed

lemma gather_all:
  "\<forall>i\<in>set ixs. finished i \<noteq> None \<Longrightarrow> gather finished ixs = Some (map (\<lambda>i. the (finished i)) ixs)"
  by (induction ixs) auto

section \<open>Batch processing returns one outcome per URL, in input order\<close>

text \<open>
  Claim C1. For every list of URLs, the sequential batch returns exactly one outcome per
  input URL, the outcome at position \<open>i\<close> being the one of the \<open>i\<close>-th URL. In the
  concurrent executor, whatever the order \<open>schedule\<close> in which the tasks complete, as long
  as every task completes, the join returns a list of the same length as the input whose
  \<open>i\<close>-th outcome carries the \<open>i\<close>-th input URL.
\<close>

theorem batch_one_outcome_per_url:
  "(let results = fst (scrape_multiple_urls c w urls s)
    in length results = length urls \<and> (\<forall>i<length urls. url (results ! i) = urls ! i)) \<and>
   (set [0 ..< length urls] \<subseteq> set schedule \<longrightarrow>
     (\<exists>results. scrape_multiple_async ac w urls schedule = Some results \<and>
        length results = length urls \<and>
        (\<forall>i<length urls. url (results ! i) = urls ! i)))"
proof (intro conjI impI)
  have m: "map url (fst (scrape_multiple_urls c w urls s)) = urls"
    using scrape_loop_urls [of c w urls "[]" s] by (simp add: scrape_multiple_urls_def)
  have len: "length (fst (scrape_multiple_urls c w urls s)) = length urls"
    using arg_cong [OF m, of length] by simp
  have "\<forall>i<length urls. url (fst (scrape_multiple_urls c w urls s) ! i) = urls ! i"
  proof (intro allI impI)
    fix i assume i: "i < length urls"
    then have "map url (fst (scrape_multiple_urls c w urls s)) ! i
                 = url (fst (scrape_multiple_urls c w urls s) ! i)"
      using len by simp
    then show "url (fst (scrape_multiple_urls c w urls s) ! i) = urls ! i" using m by simp
  qed
  then show "let results = fst (scrape_multiple_urls c w urls s)
    in length results = length urls \<and> (\<forall>i<length urls. url (results ! i) = urls ! i)"
    using len by (simp add: Let_def)
next
  assume sched: "set [0 ..< length urls] \<subseteq> set schedule"
  let ?d = "run_tasks ac w urls schedule 0 Map.empty"
  have all: "\<forall>i\<in>set [0 ..< length urls]. ?d i \<noteq> None"
    using sched run_tasks_completes [of _ schedule urls ac w 0 Map.empty] by auto
  have g: "scrape_multiple_async ac w urls schedule
             = Some (map (\<lambda>i. the (?d i)) [0 ..< length urls])"
    using gather_all [OF all] by (simp add: scrape_multiple_async_def)
  have u: "\<forall>i<length urls. url (map (\<lambda>i. the (?d i)) [0 ..< length urls] ! i) = urls ! i"
  proof (intro allI impI)
    fix i assume i: "i < length urls"
    then have "?d i \<noteq> None" using all by simp
    then obtain r where r: "?d i = Some r" by blast
    have "url r = urls ! i"
      by (rule run_tasks_urls [OF _ r]) simp
    then show "url (map (\<lambda>i. the (?d i)) [0 ..< length urls] ! i) = urls ! i"
      using i r by simp
  qed
  show "\<exists>results. scrape_multiple_async ac w urls schedule = Some results \<and>
        length results = length urls \<and>
        (\<forall>i<length urls. url (results ! i) = urls ! i)"
    using g u by simp
qed


text \<open>
  Three URLs whose tasks complete in the order 2, 0, 1: the join still lists the outcomes
  in input order.
\<close>

theorem batch_one_outcome_per_url_witness:
  "set [0 ..< length [''http://up.test/a'', ''http://down.test/'', ''not-a-url'']] \<subseteq> set [2, 0, 1] \<and>
   (\<exists>results. scrape_multiple_async example_async_scraper example_world
        [''http://up.test/a'', ''http://down.test/'', ''not-a-url''] [2, 0, 1] = Some results \<and>
      length results = 3 \<and> url (results ! 0) = ''http://up.test/a'' \<and>
      url (results ! 1) = ''http://down.test/'' \<and> url (results ! 2) = ''not-a-url'')"
proof -
  have h: "set [0 ..< length [''http://up.test/a'', ''http://down.test/'', ''not-a-url'']]
             \<subseteq> set [2, 0, 1::nat]"
    by (simp add: upt_rec_numeral)
  from batch_one_outcome_per_url [of example_scraper example_world
      "[''http://up.test/a'', ''http://down.test/'', ''not-a-url'']" initial_state
      "[2, 0, 1]" example_async_scraper] h
  obtain results where r: "scrape_multiple_async example_async_scraper example_world
        [''http://up.test/a'', ''http://down.test/'', ''not-a-url''] [2, 0, 1] = Some results"
    "length results = 3"
    "\<forall>i<3. url (results ! i) = [''http://up.test/a'', ''http://down.test/'', ''not-a-url''] ! i"
    by auto
  have "url (results ! 0) = ''http://up.test/a''" "url (results ! 1) = ''http://down.test/''"
    "url (results ! 2) = ''not-a-url''"
    using r(3) by auto
  then show ?thesis using h r(1,2) by blast
qed


section \<open>Helper lemmas: the retry loop\<close>

lemma attempt_fails:
  "request_fails w u t \<Longrightarrow>
   (case session_get w t u of Inl e \<Rightarrow> Inl e | Inr r \<Rightarrow> raise_for_status w u r)
     = Inl (RequestException (failure_text w u t))"
  by (auto simp: request_fails_def failure_text_def raise_for_status_def
      split: sum.splits exn.splits)

lemma loop_all_fail:
  assumes fails: "\<forall>t. request_fails w u t"
    and d: "WebScraper.delay c > 0"
    and n: "max_retries c = int N"
  shows "a \<le> N \<Longrightarrow> tick s = t0 + 2 * a \<Longrightarrow>
    make_request_loop c w u [a ..< Suc N] s =
      (Inl (RequestException (failure_text w u (t0 + 2 * N + 1))),
       s\<lparr>tick := t0 + 2 * Suc N,
         trace := trace s @ concat (map (attempt_effects c w u t0) [a ..< Suc N]),
         stats := (stats s)\<lparr>
           total_delay_time := total_delay_time (stats s)
              + sum_list (map (\<lambda>i. delay_time_at c w (t0 + 2 * i)) [a ..< Suc N]),
           scraper_stats.failed_requests := scraper_stats.failed_requests (stats s) + 1\<rparr>\<rparr>)"
proof (induction "N - a" arbitrary: a s)
  case 0
  then have a: "a = N" by simp
  have f: "request_fails w u (Suc (t0 + 2 * N))" using fails by blast
  show ?case using 0(3) d n attempt_fails [OF f]
    by (simp add: a charge_delay_def attempt_effects_def)
next
  case (Suc k)
  then have lt: "a < N" by simp
  have f: "request_fails w u (Suc (t0 + 2 * a))" using fails by blast
  have up: "[a ..< Suc N] = a # [Suc a ..< Suc N]" using lt by (simp add: upt_conv_Cons)
  show ?case
    using Suc(1) [of "Suc a"] Suc(2,3,4) d n lt attempt_fails [OF f]
    by (simp add: up charge_delay_def attempt_effects_def Let_def add.assoc del: upt_Suc)
qed

lemma make_request_all_fail:
  assumes fails: "\<forall>t. request_fails w u t"
    and d: "WebScraper.delay c > 0"
    and n: "max_retries c = int N"
  shows "make_request c w u s =
      (Inl (RequestException (failure_text w u (tick s + 2 * N + 1))),
       s\<lparr>tick := tick s + 2 * Suc N,
         trace := trace s @ concat (map (attempt_effects c w u (tick s)) [0 ..< Suc N]),
         stats := (stats s)\<lparr>
           total_delay_time := total_delay_time (stats s)
              + sum_list (map (\<lambda>i. delay_time_at c w (tick s + 2 * i)) [0 ..< Suc N]),
           scraper_stats.failed_requests := scraper_stats.failed_requests (stats s) + 1\<rparr>\<rparr>)"
proof -
  have "nat (max_retries c + 1) = Suc N" using n by simp
  then show ?thesis
    using loop_all_fail [OF fails d n, of 0 s "tick s"] by (simp add: make_request_def)
qed

lemma gets_of_attempts:
  "length (filter is_get (concat (map (attempt_effects c w u t0) xs))) = length xs"
  by (induction xs) (simp_all add: attempt_effects_def)

section \<open>A malformed URL is rejected before any network attempt\<close>

text \<open>
  Claim C2. If the parse of the URL lacks a scheme or a host, \<open>scrape_url\<close> returns the
  failure outcome with the error text \<^verbatim>\<open>Invalid URL\<close> and status code 0, and neither the
  statistics (among them the delay-time counter) nor the trace of effects changes: no
  pause, no request, no retry.
\<close>

theorem invalid_url_rejected:
  assumes "urlparse w u = Inr p" and "scheme p = [] \<or> netloc p = []"
  shows "fst (scrape_url c w u s) =
           \<lparr>url = u, status_code = 0, success = False, data = [],
            timestamp = now w (tick s), error_message = Some ''Invalid URL''\<rparr> \<and>
         stats (snd (scrape_url c w u s)) = stats s \<and>
         trace (snd (scrape_url c w u s)) = trace s"
proof -
  have "\<not> validate_url w u" using assms by (auto simp: validate_url_def)
  then show ?thesis by (simp add: scrape_url_def failure_result_def)
qed

text \<open>The URL \<^verbatim>\<open>not-a-url\<close> on a fresh scraper.\<close>

theorem invalid_url_rejected_witness:
  "urlparse example_world ''not-a-url'' = Inr \<lparr>scheme = [], netloc = []\<rparr> \<and>
   fst (scrape_url example_scraper example_world ''not-a-url'' initial_state) =
           \<lparr>url = ''not-a-url'', status_code = 0, success = False, data = [],
            timestamp = 0, error_message = Some ''Invalid URL''\<rparr> \<and>
   stats (snd (scrape_url example_scraper example_world ''not-a-url'' initial_state))
     = initial_stats \<and>
   trace (snd (scrape_url example_scraper example_world ''not-a-url'' initial_state)) = []"
proof -
  have p: "urlparse example_world ''not-a-url'' = Inr \<lparr>scheme = [], netloc = []\<rparr>"
    by (simp add: example_world_def example_urlparse_def)
  show ?thesis
    using invalid_url_rejected [OF p, of example_scraper initial_state] p
    by (simp add: initial_state_def example_world_def)
qed

section \<open>The retry ladder against a transport that always fails\<close>

text \<open>
  Claim C3 does not hold for every failing transport: \<^verbatim>\<open>_make_request\<close> retries a
  \<^verbatim>\<open>RequestException\<close> only. When the transport raises another exception on every call,
  with \<open>max_retries = 2\<close>, the executor makes one request, sleeps no backoff and charges
  one jittered pause; the exception goes straight to \<open>scrape_url\<close>.
\<close>

theorem other_exception_is_not_retried:
  "max_retries example_scraper = 2 \<and>
   trace (snd (scrape_url example_scraper other_exception_world ''http://up.test/a''
      initial_state)) = [Sleep (5 / 4), Get ''http://up.test/a''] \<and>
   length (filter is_get (trace (snd (scrape_url example_scraper other_exception_world
      ''http://up.test/a'' initial_state)))) = 1 \<and>
   total_delay_time (stats (snd (scrape_url example_scraper other_exception_world
      ''http://up.test/a'' initial_state))) = 5 / 4 \<and>
   fst (scrape_url example_scraper other_exception_world ''http://up.test/a'' initial_state) =
     \<lparr>url = ''http://up.test/a'', status_code = 0, success = False, data = [],
      timestamp = 2, error_message = Some ''broken pipe''\<rparr>"
  by code_simp

text \<open>
  Claim C3, amended. With \<open>max_retries = N \<ge> 0\<close> and a positive delay, on the transport
  path (\<open>use_selenium\<close> off) and for a valid URL whose every request fails as a request
  (the transport raises a \<^verbatim>\<open>RequestException\<close>, or answers with a 4xx or 5xx status),
  the effects that \<open>scrape_url\<close> adds are, for each of the attempts \<open>0, \<dots>, N\<close> in
  turn, the jittered pause, the request, and between consecutive attempts the backoff
  pause of \<open>2 ^ i\<close> seconds. So there are exactly \<open>N + 1\<close> requests, the delay-time
  counter grows by the \<open>N + 1\<close> jittered pauses, and the failure outcome carries the
  error text of the last attempt only.
\<close>

theorem retry_ladder_all_attempts_fail:
  assumes "max_retries c = int N" and "WebScraper.delay c > 0" and "\<not> use_selenium c"
    and "validate_url w u" and "\<forall>t. request_fails w u t"
  shows "(let new_effects = drop (length (trace s)) (trace (snd (scrape_url c w u s)))
          in new_effects = concat (map (attempt_effects c w u (tick s)) [0 ..< N + 1]) \<and>
             length (filter is_get new_effects) = N + 1) \<and>
         total_delay_time (stats (snd (scrape_url c w u s))) =
           total_delay_time (stats s) + (\<Sum>i<N + 1. delay_time_at c w (tick s + 2 * i)) \<and>
         fst (scrape_url c w u s) =
           \<lparr>url = u, status_code = 0, success = False, data = [],
            timestamp = now w (tick s + 2 * (N + 1)),
            error_message = Some (failure_text w u (tick s + 2 * N + 1))\<rparr>"
proof -
  have mr: "make_request c w u s =
      (Inl (RequestException (failure_text w u (tick s + 2 * N + 1))),
       s\<lparr>tick := tick s + 2 * Suc N,
         trace := trace s @ concat (map (attempt_effects c w u (tick s)) [0 ..< Suc N]),
         stats := (stats s)\<lparr>
           total_delay_time := total_delay_time (stats s)
              + sum_list (map (\<lambda>i. delay_time_at c w (tick s + 2 * i)) [0 ..< Suc N]),
           scraper_stats.failed_requests := scraper_stats.failed_requests (stats s) + 1\<rparr>\<rparr>)"
    using make_request_all_fail [OF assms(5,2,1)] .
  have su: "sum_list (map (\<lambda>i. delay_time_at c w (tick s + 2 * i)) [0 ..< Suc N])
              = (\<Sum>i<N + 1. delay_time_at c w (tick s + 2 * i))"
    by (simp add: interv_sum_list_conv_sum_set_nat lessThan_atLeast0 del: upt_Suc)
  show ?thesis
    using assms(3,4) su gets_of_attempts [of c w u "tick s" "[0 ..< Suc N]"]
    by (simp add: scrape_url_def fetch_page_def mr failure_result_def Let_def del: upt_Suc)
qed

text \<open>
  Two retries, a delay of one second and a jitter draw of one half: three requests,
  backoff pauses of 1 and 2 seconds, 3.75 seconds charged.
\<close>

theorem retry_ladder_all_attempts_fail_witness:
  "max_retries example_scraper = int 2 \<and> WebScraper.delay example_scraper > 0 \<and>
   \<not> use_selenium example_scraper \<and> validate_url example_world ''http://down.test/'' \<and>
   (\<forall>t. request_fails example_world ''http://down.test/'' t) \<and>
   trace (snd (scrape_url example_scraper example_world ''http://down.test/'' initial_state)) =
     [Sleep (5 / 4), Get ''http://down.test/'', Sleep 1,
      Sleep (5 / 4), Get ''http://down.test/'', Sleep 2,
      Sleep (5 / 4), Get ''http://down.test/''] \<and>
   total_delay_time (stats (snd (scrape_url example_scraper example_world
      ''http://down.test/'' initial_state))) = 15 / 4 \<and>
   error_message (fst (scrape_url example_scraper example_world
      ''http://down.test/'' initial_state)) = Some ''refused''"
proof -
  have h1: "max_retries example_scraper = int 2" by (simp add: example_scraper_def)
  have h2: "WebScraper.delay example_scraper > 0" by (simp add: example_scraper_def)
  have h3: "\<not> use_selenium example_scraper" by (simp add: example_scraper_def)
  have h4: "validate_url example_world ''http://down.test/''"
    by (simp add: validate_url_def example_world_def example_urlparse_def)
  have h5: "\<forall>t. request_fails example_world ''http://down.test/'' t"
    by (simp add: request_fails_def example_world_def)
  have up: "[0 ..< 3] = [0, 1, 2::nat]" by code_simp
  show ?thesis
    using retry_ladder_all_attempts_fail [OF h1 h2 h3 h4 h5, of initial_state] h1 h2 h3 h4 h5
    apply (simp add: Let_def initial_state_def initial_stats_def up attempt_effects_def
        delay_time_at_def uniform_def failure_text_def example_scraper_def)
    apply (simp add: example_world_def lessThan_Suc eval_nat_numeral)
    done
qed


section \<open>Helper lemmas: the counters of the sequential executor\<close>

text \<open>How one run of the attempt loop moves the three counters, by its result.\<close>

lemma charge_delay_counters:
  "requests_made (stats (charge_delay c w s)) = requests_made (stats s) \<and>
   scraper_stats.successful_requests (stats (charge_delay c w s))
     = scraper_stats.successful_requests (stats s) \<and>
   scraper_stats.failed_requests (stats (charge_delay c w s))
     = scraper_stats.failed_requests (stats s)"
  by (simp add: charge_delay_def)

lemma loop_counters:
  "make_request_loop c w u as s = (res, s') \<Longrightarrow>
   (case res of
      Inr (Some r) \<Rightarrow>
        requests_made (stats s') = requests_made (stats s) + 1 \<and>
        scraper_stats.successful_requests (stats s')
          = scraper_stats.successful_requests (stats s) + 1 \<and>
        scraper_stats.failed_requests (stats s') = scraper_stats.failed_requests (stats s)
    | Inr None \<Rightarrow>
        requests_made (stats s') = requests_made (stats s) \<and>
        scraper_stats.successful_requests (stats s')
          = scraper_stats.successful_requests (stats s) \<and>
        scraper_stats.failed_requests (stats s') = scraper_stats.failed_requests (stats s)
    | Inl (RequestException m) \<Rightarrow>
        requests_made (stats s') = requests_made (stats s) \<and>
        scraper_stats.successful_requests (stats s')
          = scraper_stats.successful_requests (stats s) \<and>
        scraper_stats.failed_requests (stats s')
          = scraper_stats.failed_requests (stats s) + 1
    | Inl (OtherException m) \<Rightarrow>
        requests_made (stats s') = requests_made (stats s) \<and>
        scraper_stats.successful_requests (stats s')
          = scraper_stats.successful_requests (stats s) \<and>
        scraper_stats.failed_requests (stats s') = scraper_stats.failed_requests (stats s))"
proof (induction as arbitrary: s)
  case Nil
  then show ?case by auto
next
  case (Cons a as)
  let ?s1 = "charge_delay c w s"
  let ?s2 = "?s1\<lparr>tick := Suc (tick ?s1), trace := trace ?s1 @ [Get u]\<rparr>"
  let ?s3 = "?s2\<lparr>trace := trace ?s2 @ [Sleep (2 ^ a)]\<rparr>"
  consider (ok) r where
      "(case session_get w (tick ?s1) u of Inl e \<Rightarrow> Inl e | Inr r \<Rightarrow> raise_for_status w u r)
         = Inr r"
    | (last) m where
      "(case session_get w (tick ?s1) u of Inl e \<Rightarrow> Inl e | Inr r \<Rightarrow> raise_for_status w u r)
         = Inl (RequestException m)" "int a = max_retries c"
    | (again) m where
      "(case session_get w (tick ?s1) u of Inl e \<Rightarrow> Inl e | Inr r \<Rightarrow> raise_for_status w u r)
         = Inl (RequestException m)" "int a \<noteq> max_retries c"
    | (other) m where
      "(case session_get w (tick ?s1) u of Inl e \<Rightarrow> Inl e | Inr r \<Rightarrow> raise_for_status w u r)
         = Inl (OtherException m)"
    by (metis exn.exhaust sum.exhaust_sel sum.collapse(1))
  then show ?case
  proof cases
    case ok
    then show ?thesis using Cons.prems charge_delay_counters [of c w s]
      by (auto simp: Let_def)
  next
    case last
    then show ?thesis using Cons.prems charge_delay_counters [of c w s]
      by (auto simp: Let_def)
  next
    case again
    then have "make_request_loop c w u as ?s3 = (res, s')"
      using Cons.prems by (simp add: Let_def)
    from Cons.IH [OF this] show ?thesis
      using charge_delay_counters [of c w s]
      by (auto split: sum.splits option.splits exn.splits simp: charge_delay_def)
  next
    case other
    then show ?thesis using Cons.prems charge_delay_counters [of c w s]
      by (auto simp: Let_def)
  qed
qed

text \<open>
  One URL, and a batch: the counters grow by the number of answered requests and of
  exhausted requests.
\<close>

lemma scrape_url_stats:
  "requests_made (stats (snd (scrape_url c w u s)))
     = requests_made (stats s) + int (request_answered c w u s) \<and>
   scraper_stats.successful_requests (stats (snd (scrape_url c w u s)))
     = scraper_stats.successful_requests (stats s) + int (request_answered c w u s) \<and>
   scraper_stats.failed_requests (stats (snd (scrape_url c w u s)))
     = scraper_stats.failed_requests (stats s) + int (request_exhausted c w u s)"
proof -
  obtain res s1 where mr: "make_request c w u s = (res, s1)" by (cases "make_request c w u s")
  note lc = loop_counters [OF mr [unfolded make_request_def]]
  show ?thesis
    using lc mr
    by (auto simp: scrape_url_def fetch_page_def failure_result_def parse_with_selenium_def
        request_answered_def request_exhausted_def
        split: sum.splits option.splits exn.splits prod.splits)
qed

lemma scrape_loop_stats:
  "requests_made (stats (snd (scrape_loop c w us rs s)))
     = requests_made (stats s) + int (answered c w us s) \<and>
   scraper_stats.successful_requests (stats (snd (scrape_loop c w us rs s)))
     = scraper_stats.successful_requests (stats s) + int (answered c w us s) \<and>
   scraper_stats.failed_requests (stats (snd (scrape_loop c w us rs s)))
     = scraper_stats.failed_requests (stats s) + int (exhausted c w us s)"
proof (induction us arbitrary: rs s)
  case Nil
  show ?case by simp
next
  case (Cons u us)
  obtain r s1 where step: "scrape_url c w u s = (r, s1)" by (cases "scrape_url c w u s")
  show ?case
    using Cons [of "rs @ [r]" s1] scrape_url_stats [of c w u s] step by simp
qed

section \<open>The executor's own statistics count successful requests only\<close>

text \<open>
  Claim C10 does not hold where it says that a failed URL increments \<open>failed_requests\<close>
  and never \<open>requests_made\<close>: the counters are kept by \<^verbatim>\<open>_make_request\<close> and count
  requests, not URLs. A URL whose request is answered and whose extractor then raises has
  a failure outcome, and it increments \<open>requests_made\<close> and not \<open>failed_requests\<close>.
\<close>

theorem extractor_failure_counts_as_request_made:
  "\<not> success (fst (scrape_url example_scraper failing_extractor_world ''http://up.test/a''
      initial_state)) \<and>
   requests_made (stats (snd (scrape_url example_scraper failing_extractor_world
      ''http://up.test/a'' initial_state))) = 1 \<and>
   scraper_stats.failed_requests (stats (snd (scrape_url example_scraper
      failing_extractor_world ''http://up.test/a'' initial_state))) = 0"
  by code_simp

text \<open>
  Claim C10, amended. Over any batch, \<open>requests_made\<close> and \<open>successful_requests\<close> both
  grow by exactly the number of URLs whose request is answered (a successful attempt
  increments the two together, and nothing else increments either), and
  \<open>failed_requests\<close> grows by exactly the number of URLs whose request uses up its
  attempts; such a URL leaves \<open>requests_made\<close> alone. Hence on a fresh scraper the two
  counters are equal after the batch, and the \<open>success_rate\<close> of \<open>get_stats\<close> is 100 when
  some request of the batch was answered and 0 when none was, whatever the number of
  failed requests.
\<close>

theorem requests_made_counts_successes_only:
  "(let before = stats s; after = stats (snd (scrape_multiple_urls c w urls s))
    in requests_made after = requests_made before + int (answered c w urls s) \<and>
       scraper_stats.successful_requests after
         = scraper_stats.successful_requests before + int (answered c w urls s) \<and>
       scraper_stats.failed_requests after
         = scraper_stats.failed_requests before + int (exhausted c w urls s)) \<and>
   (let after = stats (snd (scrape_multiple_urls c w urls initial_state))
    in requests_made after = scraper_stats.successful_requests after \<and>
       dict_get (get_stats after) ''success_rate'' 0
         = (if answered c w urls initial_state > 0 then 100 else 0))"
proof -
  have st: "\<And>s. requests_made (stats (snd (scrape_multiple_urls c w urls s)))
       = requests_made (stats s) + int (answered c w urls s) \<and>
     scraper_stats.successful_requests (stats (snd (scrape_multiple_urls c w urls s)))
       = scraper_stats.successful_requests (stats s) + int (answered c w urls s) \<and>
     scraper_stats.failed_requests (stats (snd (scrape_multiple_urls c w urls s)))
       = scraper_stats.failed_requests (stats s) + int (exhausted c w urls s)"
    using scrape_loop_stats [of c w urls "[]"] by (simp add: scrape_multiple_urls_def)
  have "requests_made (stats (snd (scrape_multiple_urls c w urls initial_state)))
          = int (answered c w urls initial_state)"
    "scraper_stats.successful_requests (stats (snd (scrape_multiple_urls c w urls initial_state)))
          = int (answered c w urls initial_state)"
    using st [of initial_state] by (simp_all add: initial_state_def initial_stats_def)
  then have "requests_made (stats (snd (scrape_multiple_urls c w urls initial_state)))
          = scraper_stats.successful_requests
              (stats (snd (scrape_multiple_urls c w urls initial_state))) \<and>
       dict_get (get_stats (stats (snd (scrape_multiple_urls c w urls initial_state))))
          ''success_rate'' 0
         = (if answered c w urls initial_state > 0 then 100 else 0)"
    by (auto simp: get_stats_def max_def)
  then show ?thesis using st [of s] by (simp add: Let_def)
qed

text \<open>
  A URL that is served, a URL whose host is down and a malformed URL, on a fresh scraper:
  one request answered, one exhausted, a success rate of 100.
\<close>

theorem requests_made_counts_successes_only_witness:
  "answered example_scraper example_world
     [''http://up.test/a'', ''http://down.test/'', ''not-a-url''] initial_state = 1 \<and>
   exhausted example_scraper example_world
     [''http://up.test/a'', ''http://down.test/'', ''not-a-url''] initial_state = 1 \<and>
   (let after = stats (snd (scrape_multiple_urls example_scraper example_world
                  [''http://up.test/a'', ''http://down.test/'', ''not-a-url''] initial_state))
    in requests_made after = 1 \<and> scraper_stats.successful_requests after = 1 \<and>
       scraper_stats.failed_requests after = 1 \<and>
       dict_get (get_stats after) ''success_rate'' 0 = 100)"
proof -
  have a: "answered example_scraper example_world
     [''http://up.test/a'', ''http://down.test/'', ''not-a-url''] initial_state = 1"
    by code_simp
  have e: "exhausted example_scraper example_world
     [''http://up.test/a'', ''http://down.test/'', ''not-a-url''] initial_state = 1"
    by code_simp
  show ?thesis
    using requests_made_counts_successes_only [of initial_state example_scraper example_world
      "[''http://up.test/a'', ''http://down.test/'', ''not-a-url'']"] a e
    by (simp add: Let_def initial_state_def initial_stats_def
        del: answered.simps exhausted.simps)
qed


text \<open>The counters after that batch: one failed request, and a success rate of 100.\<close>

lemma example_batch_stats:
  "stats (snd (scrape_multiple_urls example_scraper example_world
      [''http://up.test/a'', ''http://down.test/''] initial_state))
   = \<lparr>requests_made = 1, successful_requests = 1, failed_requests = 1,
      total_delay_time = 5\<rparr>"
  by code_simp

section \<open>Helper lemmas: the bounded history\<close>

lemma deque_append_keeps_latest:
  "length d \<le> n \<Longrightarrow> deque_append n d x = drop (length (d @ [x]) - n) (d @ [x])"
  by (cases d) (auto simp: deque_append_def Suc_diff_le)

lemma deque_append_length: "length d \<le> n \<Longrightarrow> length (deque_append n d x) \<le> n"
  by (auto simp: deque_append_def)

lemma latest_as_take: "drop (length xs - n) xs = rev (take n (rev xs))"
  by (simp add: rev_take)

lemma latest_of_latest_append:
  "drop (length (drop (length ys - n) ys @ zs) - n) (drop (length ys - n) ys @ zs)
     = drop (length (ys @ zs) - n) (ys @ zs)"
proof -
  have "rev (take n (rev (rev (take n (rev ys)) @ zs))) = rev (take n (rev (ys @ zs)))"
    by (simp add: min_def)
  then show ?thesis by (simp only: latest_as_take)
qed

lemma monitor_loop_history:
  "monitoring pm \<Longrightarrow> length (metrics_history pm) \<le> history_maxlen \<Longrightarrow>
   metrics_history (monitor_loop captures pm) =
     drop (length (metrics_history pm @ captured captures) - history_maxlen)
       (metrics_history pm @ captured captures)"
proof (induction captures arbitrary: pm)
  case Nil
  then show ?case by simp
next
  case (Cons capture rest)
  show ?case
  proof (cases capture)
    case (Inl e)
    then show ?thesis using Cons by (simp add: monitor_wake_def)
  next
    case (Inr m)
    let ?pm = "monitor_wake capture pm"
    let ?h = "metrics_history pm @ [m]"
    have h: "metrics_history ?pm = drop (length ?h - history_maxlen) ?h"
      using Inr Cons.prems(2) by (simp add: monitor_wake_def deque_append_keeps_latest)
    have l: "length (metrics_history ?pm) \<le> history_maxlen" unfolding h by simp
    have mo: "monitoring ?pm" using Cons.prems(1) by (simp add: monitor_wake_def split: sum.splits)
    have "metrics_history (monitor_loop rest ?pm) =
            drop (length (metrics_history ?pm @ captured rest) - history_maxlen)
              (metrics_history ?pm @ captured rest)"
      by (rule Cons.IH [OF mo l])
    also have "\<dots> = drop (length (?h @ captured rest) - history_maxlen) (?h @ captured rest)"
      unfolding h by (rule latest_of_latest_append)
    finally show ?thesis using Cons.prems(1) Inr by simp
  qed
qed

lemma captured_map_Inr: "captured (map (Inr \<circ> f) xs) = map f xs"
  by (induction xs) simp_all

section \<open>The sampler's history is bounded and keeps the most recent samples\<close>

text \<open>
  Claim C9. After any sequence of wakes of a started sampler, the history holds at most
  1000 samples, and it is the list of all appended samples without its oldest ones: the
  last 1000 of them. In particular after \<open>1000 + k\<close> appends it holds exactly 1000
  samples, the first \<open>k\<close> having been evicted, oldest first.
\<close>

theorem ring_buffer_bounded_fifo:
  "(let history = metrics_history
        (monitor_loop captures (start_monitoring (new_performance_monitor i)))
    in length history \<le> 1000 \<and>
       history = drop (length (captured captures) - 1000) (captured captures) \<and>
       (\<forall>k. length (captured captures) = 1000 + k \<longrightarrow>
          length history = 1000 \<and> history = drop k (captured captures)))"
proof -
  let ?pm = "start_monitoring (new_performance_monitor i)"
  have "monitoring ?pm" "length (metrics_history ?pm) \<le> history_maxlen"
    "metrics_history ?pm = []"
    by (simp_all add: start_monitoring_def new_performance_monitor_def)
  then have "metrics_history (monitor_loop captures ?pm)
      = drop (length (captured captures) - 1000) (captured captures)"
    using monitor_loop_history [of ?pm captures] by (simp add: history_maxlen_def)
  then show ?thesis by (auto simp: Let_def)
qed

text \<open>1003 appends: samples 0, 1 and 2 are gone, samples 3 to 1002 remain in order.\<close>

theorem ring_buffer_bounded_fifo_witness:
  "length (captured (map (Inr \<circ> example_sample) [0 ..< 1003])) = 1000 + 3 \<and>
   (let history = metrics_history
        (monitor_loop (map (Inr \<circ> example_sample) [0 ..< 1003])
           (start_monitoring (new_performance_monitor 5)))
    in length history = 1000 \<and> history = map example_sample [3 ..< 1003])"
proof -
  have l: "length (captured (map (Inr \<circ> example_sample) [0 ..< 1003])) = 1000 + 3"
    by (simp add: captured_map_Inr)
  have d: "drop 3 (captured (map (Inr \<circ> example_sample) [0 ..< 1003]))
             = map example_sample [3 ..< 1003]"
    by (simp add: captured_map_Inr drop_map)
  show ?thesis
    using ring_buffer_bounded_fifo [of "map (Inr \<circ> example_sample) [0 ..< 1003]" 5] l d
    by (simp add: Let_def)
qed


section \<open>The concurrent executor reports an error status as a success\<close>

text \<open>
  Claim C4 does not hold of the code. \<open>fetch_url\<close> makes a single attempt, but it never
  inspects the status: a response with status 404 yields an outcome whose success flag is
  set and whose status code is 404. The sequential executor, given the same URL and the
  same response, calls \<^verbatim>\<open>raise_for_status\<close> and returns a failure outcome.
\<close>

theorem fetch_url_error_status_reported_as_success:
  "fetch_url example_async_scraper example_world 0 ''http://up.test/missing'' =
     (\<lparr>url = ''http://up.test/missing'', status_code = 404, success = True,
       data = [(''url'', PStr ''http://up.test/missing''), (''title'', PStr []),
               (''text_length'', PInt 4)],
       timestamp = 0, error_message = None\<rparr>,
      [Sleep 1, Get ''http://up.test/missing'']) \<and>
   fst (scrape_url (example_scraper\<lparr>max_retries := 0\<rparr>) example_world
          ''http://up.test/missing'' initial_state) =
     \<lparr>url = ''http://up.test/missing'', status_code = 0, success = False, data = [],
      timestamp = 2,
      error_message = Some ''404 Error for url: http://up.test/missing''\<rparr>"
  by code_simp

section \<open>Two snapshots of the metrics\<close>

text \<open>
  Claim C6 does not hold before \<open>end_time\<close> is set: \<open>duration\<close> then reads the clock,
  so two snapshots taken at different clock readings differ in \<^verbatim>\<open>duration_seconds\<close>.
\<close>

theorem to_dict_differs_while_running:
  "to_dict 1000000 (new_metrics 0) \<noteq> to_dict 2000000 (new_metrics 0)"
  by (simp add: to_dict_def new_metrics_def duration_def total_seconds_def)

text \<open>
  Claim C6, amended. Once \<open>end_time\<close> is set, two snapshots with no record in between
  are equal whatever the clock reads. Before that they are equal exactly when the clock
  reads the same at both calls, and in any case they agree on every entry other than
  \<^verbatim>\<open>duration_seconds\<close>.
\<close>

theorem to_dict_idempotent_after_end:
  "(end_time m \<noteq> None \<longrightarrow> to_dict t1 m = to_dict t2 m) \<and>
   (end_time m = None \<longrightarrow> (to_dict t1 m = to_dict t2 m \<longleftrightarrow> t1 = t2)) \<and>
   filter (\<lambda>(k, v). k \<noteq> ''duration_seconds'') (to_dict t1 m)
     = filter (\<lambda>(k, v). k \<noteq> ''duration_seconds'') (to_dict t2 m)"
  by (auto simp: to_dict_def duration_def total_seconds_def)

text \<open>A session that has ended, and a session still running.\<close>

theorem to_dict_idempotent_after_end_witness:
  "end_time (metrics (end_session 3000000 (new_scraping_monitor 0))) \<noteq> None \<and>
   to_dict 4000000 (metrics (end_session 3000000 (new_scraping_monitor 0)))
     = to_dict 9000000 (metrics (end_session 3000000 (new_scraping_monitor 0))) \<and>
   end_time (new_metrics 0) = None \<and>
   (to_dict 4000000 (new_metrics 0) = to_dict 9000000 (new_metrics 0)
      \<longleftrightarrow> (4000000::int) = 9000000)"
proof -
  have e: "end_time (metrics (end_session 3000000 (new_scraping_monitor 0))) \<noteq> None"
    by (simp add: end_session_def Let_def)
  have n: "end_time (new_metrics 0) = None" by (simp add: new_metrics_def)
  show ?thesis
    using to_dict_idempotent_after_end
        [of "metrics (end_session 3000000 (new_scraping_monitor 0))" 4000000 9000000]
      to_dict_idempotent_after_end [of "new_metrics 0" 4000000 9000000] e n
    by blast
qed

section \<open>Helper lemmas: the aggregator\<close>













section \<open>The average response time\<close>




section \<open>Helper lemmas: the alert list\<close>

lemma add_alerts_fold:
  "\<exists>new. foldl (\<lambda>as a. add_alert a as) as ms = as @ new \<and> distinct new \<and>
     set new = set ms - set as"
proof (induction ms arbitrary: as)
  case Nil
  show ?case by simp
next
  case (Cons m ms)
  from Cons [of "add_alert m as"]
  obtain new where n: "foldl (\<lambda>as a. add_alert a as) (add_alert m as) ms = add_alert m as @ new"
    "distinct new" "set new = set ms - set (add_alert m as)"
    by blast
  show ?case
  proof (cases "m \<in> set as")
    case True
    then have "foldl (\<lambda>as a. add_alert a as) as (m # ms) = as @ new \<and> distinct new \<and>
      set new = set (m # ms) - set as"
      using n by (auto simp: add_alert_def)
    then show ?thesis by blast
  next
    case False
    then have "foldl (\<lambda>as a. add_alert a as) as (m # ms) = as @ (m # new) \<and>
      distinct (m # new) \<and> set (m # new) = set (m # ms) - set as"
      using n by (auto simp: add_alert_def)
    then show ?thesis by blast
  qed
qed

lemma check_alerts_fold:
  "alerts (check_alerts w mon) = foldl (\<lambda>as a. add_alert a as) (alerts mon) (breaches w mon)"
  by (simp add: check_alerts_def breaches_def Let_def)

lemma check_alerts_extends: "\<exists>new. alerts (check_alerts w mon) = alerts mon @ new"
  using add_alerts_fold [of "alerts mon" "breaches w mon"] by (auto simp: check_alerts_fold)

lemma distinct_singleton: "distinct xs \<Longrightarrow> set xs = {x} \<Longrightarrow> xs = [x]"
proof (cases xs)
  case Nil
  assume "set xs = {x}"
  then show ?thesis using Nil by simp
next
  case (Cons y ys)
  assume d: "distinct xs" and s: "set xs = {x}"
  have y: "y = x" using s Cons by auto
  have "set ys \<subseteq> {x}" "x \<notin> set ys" using s d Cons y by auto
  then have "ys = []" by (cases ys) auto
  then show ?thesis using Cons y by simp
qed

section \<open>Alerts are deduplicated by their text\<close>

text \<open>
  Claim C7. One evaluation of the alert rules appends, after the alerts already present,
  exactly the texts of the rules in breach that are not yet in the list, each once: a
  breach whose text is already present appends nothing. Since the test is on the text
  and not on the rule, when the rules are evaluated again on the resulting list, every
  text of both evaluations is in the list afterwards: two breaches of the same rule with
  different formatted values leave two alerts.
\<close>

theorem alerts_deduplicated_by_text:
  "(\<exists>new. alerts (check_alerts w mon) = alerts mon @ new \<and> distinct new \<and>
      set new = set (breaches w mon) - set (alerts mon)) \<and>
   (\<forall>mon'. alerts mon' = alerts (check_alerts w mon) \<longrightarrow>
      set (breaches w mon) \<union> set (breaches w mon') \<subseteq> set (alerts (check_alerts w mon')))"
proof (intro conjI allI impI)
  show first: "\<exists>new. alerts (check_alerts w mon) = alerts mon @ new \<and> distinct new \<and>
      set new = set (breaches w mon) - set (alerts mon)"
    using add_alerts_fold [of "alerts mon" "breaches w mon"] by (simp add: check_alerts_fold)
  fix mon' :: ScrapingMonitor
  assume carried: "alerts mon' = alerts (check_alerts w mon)"
  obtain new where n: "alerts (check_alerts w mon) = alerts mon @ new"
    "set new = set (breaches w mon) - set (alerts mon)"
    using first by blast
  obtain new' where n': "alerts (check_alerts w mon') = alerts mon' @ new'"
    "set new' = set (breaches w mon') - set (alerts mon')"
    using add_alerts_fold [of "alerts mon'" "breaches w mon'"] by (auto simp: check_alerts_fold)
  show "set (breaches w mon) \<union> set (breaches w mon') \<subseteq> set (alerts (check_alerts w mon'))"
    using n n' carried by auto
qed

text \<open>
  An error rate of 25.3 percent and then of 25.4 percent: two alerts of the same rule;
  evaluating again at 25.4 percent adds nothing.
\<close>

theorem alerts_deduplicated_by_text_witness:
  "alerts (example_monitor 746 254 (alerts (check_alerts example_world (example_monitor 747 253 []))))
     = alerts (check_alerts example_world (example_monitor 747 253 [])) \<and>
   alerts (check_alerts example_world (example_monitor 747 253 []))
     = [''High error rate: 25.3% (threshold: 20.0%)''] \<and>
   alerts (check_alerts example_world (example_monitor 746 254
       (alerts (check_alerts example_world (example_monitor 747 253 [])))))
     = [''High error rate: 25.3% (threshold: 20.0%)'',
        ''High error rate: 25.4% (threshold: 20.0%)''] \<and>
   alerts (check_alerts example_world (example_monitor 746 254
       [''High error rate: 25.3% (threshold: 20.0%)'',
        ''High error rate: 25.4% (threshold: 20.0%)'']))
     = [''High error rate: 25.3% (threshold: 20.0%)'',
        ''High error rate: 25.4% (threshold: 20.0%)''] \<and>
   set (breaches example_world (example_monitor 747 253 [])) \<union>
   set (breaches example_world (example_monitor 746 254
       (alerts (check_alerts example_world (example_monitor 747 253 [])))))
     \<subseteq> set (alerts (check_alerts example_world (example_monitor 746 254
       (alerts (check_alerts example_world (example_monitor 747 253 []))))))"
proof -
  let ?a = "''High error rate: 25.3% (threshold: 20.0%)''"
  let ?b = "''High error rate: 25.4% (threshold: 20.0%)''"
  have al: "\<And>ok failed as. alerts (example_monitor ok failed as) = as"
    by (simp add: example_monitor_def)
  let ?m1 = "example_monitor 747 253 []"
  let ?m2 = "example_monitor 746 254 [?a]"
  let ?m3 = "example_monitor 746 254 [?a, ?b]"
  have b1: "breaches example_world ?m1 = [?a]" by code_simp
  have b2: "breaches example_world ?m2 = [?b]" by code_simp
  have b3: "breaches example_world ?m3 = [?b]" by code_simp
  from alerts_deduplicated_by_text [of example_world ?m1]
  obtain n1 where "alerts (check_alerts example_world ?m1) = alerts ?m1 @ n1" "distinct n1"
    "set n1 = set (breaches example_world ?m1) - set (alerts ?m1)" by blast
  then have c1: "alerts (check_alerts example_world ?m1) = [?a]"
    using distinct_singleton [of n1 ?a] by (simp add: al b1)
  from alerts_deduplicated_by_text [of example_world ?m2]
  obtain n2 where "alerts (check_alerts example_world ?m2) = alerts ?m2 @ n2" "distinct n2"
    "set n2 = set (breaches example_world ?m2) - set (alerts ?m2)" by blast
  then have c2: "alerts (check_alerts example_world ?m2) = [?a, ?b]"
    using distinct_singleton [of n2 ?b] by (simp add: al b2)
  from alerts_deduplicated_by_text [of example_world ?m3]
  obtain n3 where "alerts (check_alerts example_world ?m3) = alerts ?m3 @ n3" "distinct n3"
    "set n3 = set (breaches example_world ?m3) - set (alerts ?m3)" by blast
  then have c3: "alerts (check_alerts example_world ?m3) = [?a, ?b]"
    by (simp add: al b3)
  have carried: "alerts (example_monitor 746 254 (alerts (check_alerts example_world ?m1)))
      = alerts (check_alerts example_world ?m1)"
    by (simp only: al)
  have both: "set (breaches example_world ?m1) \<union>
      set (breaches example_world (example_monitor 746 254
        (alerts (check_alerts example_world ?m1))))
     \<subseteq> set (alerts (check_alerts example_world (example_monitor 746 254
        (alerts (check_alerts example_world ?m1)))))"
    using alerts_deduplicated_by_text [of example_world ?m1] carried by blast
  show ?thesis using both by (simp only: c1 c2 c3 al simp_thms)
qed


section \<open>Helper lemmas: the alert list over a session\<close>

lemma session_step_extends:
  "session_step w e mon = Inr mon' \<Longrightarrow> \<exists>new. alerts mon' = alerts mon @ new"
proof (cases e)
  case (Wake capture)
  assume "session_step w e mon = Inr mon'"
  then show ?thesis using Wake by auto
next
  case (Request t u ok code rt error cs)
  assume "session_step w e mon = Inr mon'"
  then obtain mon1 where "mon' = check_alerts w mon1" "alerts mon1 = alerts mon"
    using Request by (auto simp: log_request_def Let_def split: sum.splits)
  then show ?thesis using check_alerts_extends [of w mon1] by simp
qed

lemma run_session_extends:
  "run_session w evs mon = Inr mon' \<Longrightarrow> \<exists>new. alerts mon' = alerts mon @ new"
proof (induction evs arbitrary: mon)
  case Nil
  then show ?case by simp
next
  case (Cons e evs)
  then obtain mon1 where s: "session_step w e mon = Inr mon1"
    and r: "run_session w evs mon1 = Inr mon'"
    by (auto split: sum.splits)
  from session_step_extends [OF s] Cons.IH [OF r] show ?case by auto
qed

section \<open>The alert list over sessions\<close>

text \<open>
  Claim C8 does not hold where it says that starting the next session empties the alert
  list: \<open>start_session\<close> replaces the metrics and leaves \<open>alerts\<close> alone. An alert raised
  in one session is still listed after the next \<open>start_session\<close>.
\<close>

theorem alerts_survive_start_session:
  "\<not> isl (run_session example_world slow_request example_session) \<and>
   alerts (start_session 5000000 (Some 3)
     (projr (run_session example_world slow_request example_session)))
     = [''Slow response times: 11.00s average''] \<and>
   alerts (start_session 5000000 (Some 3)
     (projr (run_session example_world slow_request example_session))) \<noteq> []"
  by code_simp

text \<open>
  Claim C8, amended. Within a session the alert list only grows: after any sequence of
  logged requests and sampler wakes, the list is the earlier list followed by new alerts.
  Neither starting the next session nor ending a session changes it; only a newly
  constructed monitor has an empty alert list.
\<close>

theorem alerts_only_grow:
  "(\<forall>mon'. run_session w evs mon = Inr mon' \<longrightarrow> (\<exists>new. alerts mon' = alerts mon @ new)) \<and>
   alerts (start_session t n mon) = alerts mon \<and>
   alerts (end_session t mon) = alerts mon \<and>
   alerts (new_scraping_monitor t) = []"
  using run_session_extends [of w evs mon]
  by (auto simp: start_session_def end_session_def new_scraping_monitor_def Let_def)

text \<open>A slow request raises an alert, which the next \<open>start_session\<close> keeps.\<close>

theorem alerts_only_grow_witness:
  "run_session example_world slow_request example_session
     = Inr (projr (run_session example_world slow_request example_session)) \<and>
   (\<exists>new. alerts (projr (run_session example_world slow_request example_session))
      = alerts example_session @ new) \<and>
   alerts (start_session 5000000 (Some 3)
      (projr (run_session example_world slow_request example_session)))
     = alerts (projr (run_session example_world slow_request example_session))"
proof -
  have "\<not> isl (run_session example_world slow_request example_session)" by code_simp
  then have r: "run_session example_world slow_request example_session
     = Inr (projr (run_session example_world slow_request example_session))"
    by simp
  show ?thesis
    using alerts_only_grow [of example_world slow_request example_session 5000000 "Some 3"] r
      alerts_only_grow [of example_world slow_request
        "projr (run_session example_world slow_request example_session)" 5000000 "Some 3"]
    by blast
qed

end
